theory Spec2Isabelle
  imports Main "HOL-Library.Word"
begin

unbundle bit_operations_syntax

section \<open>Go values, outcomes and errors\<close>

text \<open>
  The validators of \<^verbatim>\<open>internal/verify/validate.go\<close> are pure functions of their
  arguments. A Go call either returns or panics; both are results of the model.
\<close>

datatype 'a outcome = Panic | Return 'a

type_synonym float64 = "64 word"
type_synonym int64 = "64 word"

text \<open>
  What an \<^verbatim>\<open>interface{}\<close> argument can hold: a string, a float64 (by its IEEE 754
  bits), or something else (an int, a bool, nil).
\<close>

datatype go_value = VString string | VFloat64 float64 | VInt int | VBool bool | VNil

text \<open>
  An error is the format string of its \<^verbatim>\<open>fmt.Errorf\<close> call with the arguments, or an
  error of a library (\<open>New\<close>, by its message). An argument that \<^verbatim>\<open>fmt\<close> prints
  through its \<^verbatim>\<open>String\<close> method is the \<open>AString\<close> of that text.
\<close>

datatype error = New string | Errorf string "fmt_arg list"
  and fmt_arg = AString string | AValue go_value | AError error | AFloat64 float64

text \<open>
  The legacy convention: \<^verbatim>\<open>func(v interface{}, k string) (ws []string, errors []error)\<close>.
\<close>

type_synonym SchemaValidateFunc = "go_value \<Rightarrow> string \<Rightarrow> (string list \<times> error list) outcome"

section \<open>Regular expressions\<close>

text \<open>
  Every pattern of the file is anchored at both ends (\<^verbatim>\<open>^...$\<close>), so
  \<^verbatim>\<open>MatchString\<close> asks whether the whole string is in the language of the pattern
  between the anchors. A compiled \<^verbatim>\<open>*regexp.Regexp\<close> is its source text with that
  pattern; matching is by derivatives.
\<close>

datatype rx = Never | Empty | Byte char | Between char char | Or rx rx | Then rx rx | Many rx

fun rx_nullable :: "rx \<Rightarrow> bool" where
  "rx_nullable Never = False"
| "rx_nullable Empty = True"
| "rx_nullable (Byte c) = False"
| "rx_nullable (Between lo hi) = False"
| "rx_nullable (Or r s) = (rx_nullable r \<or> rx_nullable s)"
| "rx_nullable (Then r s) = (rx_nullable r \<and> rx_nullable s)"
| "rx_nullable (Many r) = True"

fun rx_step :: "char \<Rightarrow> rx \<Rightarrow> rx" where
  "rx_step c Never = Never"
| "rx_step c Empty = Never"
| "rx_step c (Byte d) = (if c = d then Empty else Never)"
| "rx_step c (Between lo hi) =
     (if (of_char lo :: nat) \<le> of_char c \<and> (of_char c :: nat) \<le> of_char hi
      then Empty else Never)"
| "rx_step c (Or r s) = Or (rx_step c r) (rx_step c s)"
| "rx_step c (Then r s) =
     (if rx_nullable r then Or (Then (rx_step c r) s) (rx_step c s)
      else Then (rx_step c r) s)"
| "rx_step c (Many r) = Then (rx_step c r) (Many r)"

fun rx_accepts :: "rx \<Rightarrow> string \<Rightarrow> bool" where
  "rx_accepts r [] = rx_nullable r"
| "rx_accepts r (c # cs) = rx_accepts (rx_step c r) cs"

fun rx_lit :: "string \<Rightarrow> rx" where
  "rx_lit [] = Empty"
| "rx_lit (c # cs) = Then (Byte c) (rx_lit cs)"

fun rx_rep :: "nat \<Rightarrow> rx \<Rightarrow> rx" where
  "rx_rep 0 r = Empty"
| "rx_rep (Suc n) r = Then r (rx_rep n r)"

definition rx_plus :: "rx \<Rightarrow> rx" where
  "rx_plus r = Then r (Many r)"

fun rx_alts :: "rx list \<Rightarrow> rx" where
  "rx_alts [] = Never"
| "rx_alts [r] = r"
| "rx_alts (r # rs) = Or r (rx_alts rs)"

definition rx_digit :: rx where
  "rx_digit = Between CHR ''0'' CHR ''9''"

definition rx_lower :: rx where
  "rx_lower = Between CHR ''a'' CHR ''z''"

type_synonym Regexp = "string \<times> rx"

definition MatchString :: "Regexp \<Rightarrow> string \<Rightarrow> bool" where
  "MatchString re s = rx_accepts (snd re) s"

definition Regexp_String :: "Regexp \<Rightarrow> string" where
  "Regexp_String re = fst re"

text \<open>\<^verbatim>\<open>^(aws|aws-managed|third-party|\d{12})$\<close>\<close>

definition accountIDRegexp :: Regexp where
  "accountIDRegexp =
     (''^(aws|aws-managed|third-party|'' @ CHR 0x5C # ''d{12})$'',
      rx_alts [rx_lit ''aws'', rx_lit ''aws-managed'', rx_lit ''third-party'',
               rx_rep 12 rx_digit])"

text \<open>\<^verbatim>\<open>^aws(-[a-z]+)*$\<close>\<close>

definition partitionRegexp :: Regexp where
  "partitionRegexp =
     (''^aws(-[a-z]+)*$'',
      Then (rx_lit ''aws'') (Many (Then (Byte CHR ''-'') (rx_plus rx_lower))))"

text \<open>\<^verbatim>\<open>^[a-z]{2}(-[a-z]+)+-\d$\<close>\<close>

definition regionRegexp :: Regexp where
  "regionRegexp =
     (''^[a-z]{2}(-[a-z]+)+-'' @ CHR 0x5C # ''d$'',
      Then (rx_rep 2 rx_lower)
        (Then (rx_plus (Then (Byte CHR ''-'') (rx_plus rx_lower)))
           (Then (Byte CHR ''-'') rx_digit)))"

section \<open>The ARN validator\<close>

text \<open>\<^verbatim>\<open>arn.ARN\<close> of the AWS SDK.\<close>

record ARN =
  Partition :: string
  Service :: string
  Region :: string
  AccountID :: string
  Resource :: string

type_synonym ARNCheckFunc =
  "go_value \<Rightarrow> string \<Rightarrow> ARN \<Rightarrow> (string list \<times> error list) outcome"

text \<open>
  \<^verbatim>\<open>for _, f := range f { w, e := f(v, k, parsedARN); ws = append(ws, w...); errors = append(errors, e...) }\<close>
\<close>

fun ValidARNCheck_loop ::
  "ARNCheckFunc list \<Rightarrow> go_value \<Rightarrow> string \<Rightarrow> ARN \<Rightarrow> string list \<Rightarrow> error list
     \<Rightarrow> (string list \<times> error list) outcome" where
  "ValidARNCheck_loop [] v k parsedARN ws errors = Return (ws, errors)"
| "ValidARNCheck_loop (f # fs) v k parsedARN ws errors =
     (case f v k parsedARN of
        Panic \<Rightarrow> Panic
      | Return (w, e) \<Rightarrow> ValidARNCheck_loop fs v k parsedARN (ws @ w) (errors @ e))"

text \<open>
  \<open>ValidARNCheck\<close>. The SDK's \<^verbatim>\<open>arn.Parse\<close> is the first argument: it returns the
  parsed ARN and an error, nil (\<open>None\<close>) on success.
\<close>

definition ValidARNCheck ::
  "(string \<Rightarrow> ARN \<times> error option) \<Rightarrow> ARNCheckFunc list \<Rightarrow> SchemaValidateFunc" where
  "ValidARNCheck arn_Parse f v k =
     (case v of
        VString value \<Rightarrow>
          if value = [] then Return ([], [])
          else
            (case arn_Parse value of
               (parsedARN, Some err) \<Rightarrow>
                 Return ([], [Errorf ''%q (%s) is an invalid ARN: %s''
                                [AString k, AString value, AError err]])
             | (parsedARN, None) \<Rightarrow>
                 (let errors1 =
                        (if Partition parsedARN = []
                         then [Errorf ''%q (%s) is an invalid ARN: missing partition value''
                                 [AString k, AString value]]
                         else if \<not> MatchString partitionRegexp (Partition parsedARN)
                         then [Errorf ''%q (%s) is an invalid ARN: invalid partition value (expecting to match regular expression: %s)''
                                 [AString k, AString value, AString (Regexp_String partitionRegexp)]]
                         else []);
                      errors2 = errors1 @
                        (if Region parsedARN \<noteq> [] \<and> \<not> MatchString regionRegexp (Region parsedARN)
                         then [Errorf ''%q (%s) is an invalid ARN: invalid region value (expecting to match regular expression: %s)''
                                 [AString k, AString value, AString (Regexp_String regionRegexp)]]
                         else []);
                      errors3 = errors2 @
                        (if AccountID parsedARN \<noteq> [] \<and> \<not> MatchString accountIDRegexp (AccountID parsedARN)
                         then [Errorf ''%q (%s) is an invalid ARN: invalid account ID value (expecting to match regular expression: %s)''
                                 [AString k, AString value, AString (Regexp_String accountIDRegexp)]]
                         else []);
                      errors4 = errors3 @
                        (if Resource parsedARN = []
                         then [Errorf ''%q (%s) is an invalid ARN: missing resource value''
                                 [AString k, AString value]]
                         else [])
                  in ValidARNCheck_loop f v k parsedARN [] errors4))
      | _ \<Rightarrow> Return ([], [Errorf ''expected type of %s to be string'' [AString k]]))"


section \<open>Numeric and format validators\<close>

text \<open>
  Functions of the Go standard library and of the SDKs are arguments of the validators
  that call them, with the shape of their Go results: a value and an error
  (\<open>None\<close> is nil). What is proved of a validator holds for every such function.
\<close>

text \<open>\<open>Valid4ByteASN\<close>, over \<^verbatim>\<open>strconv.ParseInt(value, 10, 64)\<close>.\<close>

definition Valid4ByteASN ::
  "(string \<Rightarrow> nat \<Rightarrow> nat \<Rightarrow> int64 \<times> error option) \<Rightarrow> SchemaValidateFunc" where
  "Valid4ByteASN ParseInt v k =
     (case v of
        VString value \<Rightarrow>
          (case ParseInt value 10 64 of
             (asn, Some err) \<Rightarrow>
               Return ([], [Errorf ''%q (%q) must be a 64-bit integer'' [AString k, AValue v]])
           | (asn, None) \<Rightarrow>
               if sint asn < 0 \<or> sint asn > 4294967295
               then Return ([], [Errorf ''%q (%q) must be in the range 0 to 4294967295''
                                   [AString k, AValue v]])
               else Return ([], []))
      | _ \<Rightarrow> Panic)"

text \<open>\<^verbatim>\<open>^\d{12}$\<close>\<close>

definition ValidAccountID_pattern :: Regexp where
  "ValidAccountID_pattern = (''^'' @ CHR 0x5C # ''d{12}$'', rx_rep 12 rx_digit)"

definition ValidAccountID :: SchemaValidateFunc where
  "ValidAccountID v k =
     (case v of
        VString value \<Rightarrow>
          if \<not> MatchString ValidAccountID_pattern value
          then Return ([], [Errorf ''%q doesn't look like AWS Account ID (exactly 12 digits): %q''
                              [AString k, AString value]])
          else Return ([], [])
      | _ \<Rightarrow> Panic)"

subsection \<open>CIDR blocks\<close>

text \<open>
  \<^verbatim>\<open>net.IP\<close> is a byte slice. \<^verbatim>\<open>net.ParseCIDR\<close> returns the address, the
  network and an error; the validators read the network only through its
  \<^verbatim>\<open>String\<close> method, so its type stays a type variable.
\<close>

type_synonym IP = "8 word list"

text \<open>
  \<^verbatim>\<open>IP.To4\<close>: the 4-byte form of a 4-byte address or of a 16-byte address with the
  prefix of an IPv4-mapped one, else nil.
\<close>

definition To4 :: "IP \<Rightarrow> IP option" where
  "To4 ip =
     (if length ip = 4 then Some ip
      else if length ip = 16 \<and> take 10 ip = replicate 10 0 \<and> ip ! 10 = 0xff \<and> ip ! 11 = 0xff
      then Some (drop 12 ip)
      else None)"

text \<open>
  Modelled from the spec: \<^verbatim>\<open>CIDRBlocksEqual\<close>, which the three CIDR validators call and
  which is defined outside \<^verbatim>\<open>validate.go\<close>. By the spec (4.2) the input is reparsed and
  re-rendered to canonical form and compared byte for byte with the canonical form, so
  that an input with host bits set (\<^verbatim>\<open>10.0.0.1/24\<close> for \<^verbatim>\<open>10.0.0.0/24\<close>) is caught:
  both strings must parse, and their addresses and their networks must render alike.
\<close>

definition CIDRBlocksEqual ::
  "(string \<Rightarrow> IP \<times> 'n \<times> error option) \<Rightarrow> (IP \<Rightarrow> string) \<Rightarrow> ('n \<Rightarrow> string)
     \<Rightarrow> string \<Rightarrow> string \<Rightarrow> bool" where
  "CIDRBlocksEqual ParseCIDR IP_String IPNet_String cidr1 cidr2 =
     (case ParseCIDR cidr1 of
        (ip1, ipnet1, Some err) \<Rightarrow> False
      | (ip1, ipnet1, None) \<Rightarrow>
          (case ParseCIDR cidr2 of
             (ip2, ipnet2, Some err) \<Rightarrow> False
           | (ip2, ipnet2, None) \<Rightarrow>
               IP_String ip2 = IP_String ip1 \<and> IPNet_String ipnet2 = IPNet_String ipnet1))"

text \<open>
  The validators take \<^verbatim>\<open>net.ParseCIDR\<close>, \<^verbatim>\<open>(*net.IPNet).String\<close> and the equality of
  CIDR blocks as arguments.
\<close>

definition ValidateCIDRBlock ::
  "(string \<Rightarrow> IP \<times> 'n \<times> error option) \<Rightarrow> ('n \<Rightarrow> string) \<Rightarrow> (string \<Rightarrow> string \<Rightarrow> bool)
     \<Rightarrow> string \<Rightarrow> error option" where
  "ValidateCIDRBlock ParseCIDR IPNet_String BlocksEqual cidr =
     (case ParseCIDR cidr of
        (ip, ipnet, Some err) \<Rightarrow>
          Some (Errorf ''%q is not a valid CIDR block: %w'' [AString cidr, AError err])
      | (ip, ipnet, None) \<Rightarrow>
          if \<not> BlocksEqual cidr (IPNet_String ipnet)
          then Some (Errorf ''%q is not a valid CIDR block; did you mean %q?''
                       [AString cidr, AString (IPNet_String ipnet)])
          else None)"

definition ValidCIDRNetworkAddress ::
  "(string \<Rightarrow> IP \<times> 'n \<times> error option) \<Rightarrow> ('n \<Rightarrow> string) \<Rightarrow> (string \<Rightarrow> string \<Rightarrow> bool)
     \<Rightarrow> SchemaValidateFunc" where
  "ValidCIDRNetworkAddress ParseCIDR IPNet_String BlocksEqual v k =
     (case v of
        VString s \<Rightarrow>
          (case ValidateCIDRBlock ParseCIDR IPNet_String BlocksEqual s of
             Some err \<Rightarrow> Return ([], [err])
           | None \<Rightarrow> Return ([], []))
      | _ \<Rightarrow> Panic)"

definition ValidateIPv4CIDRBlock ::
  "(string \<Rightarrow> IP \<times> 'n \<times> error option) \<Rightarrow> ('n \<Rightarrow> string) \<Rightarrow> (string \<Rightarrow> string \<Rightarrow> bool)
     \<Rightarrow> string \<Rightarrow> error option" where
  "ValidateIPv4CIDRBlock ParseCIDR IPNet_String BlocksEqual cidr =
     (case ParseCIDR cidr of
        (ip, ipnet, Some err) \<Rightarrow>
          Some (Errorf ''%q is not a valid CIDR block: %w'' [AString cidr, AError err])
      | (ip, ipnet, None) \<Rightarrow>
          (case To4 ip of
             None \<Rightarrow> Some (Errorf ''%q is not a valid IPv4 CIDR block'' [AString cidr])
           | Some ipv4 \<Rightarrow>
               if \<not> BlocksEqual cidr (IPNet_String ipnet)
               then Some (Errorf ''%q is not a valid IPv4 CIDR block; did you mean %q?''
                            [AString cidr, AString (IPNet_String ipnet)])
               else None))"

definition ValidateIPv6CIDRBlock ::
  "(string \<Rightarrow> IP \<times> 'n \<times> error option) \<Rightarrow> ('n \<Rightarrow> string) \<Rightarrow> (string \<Rightarrow> string \<Rightarrow> bool)
     \<Rightarrow> string \<Rightarrow> error option" where
  "ValidateIPv6CIDRBlock ParseCIDR IPNet_String BlocksEqual cidr =
     (case ParseCIDR cidr of
        (ip, ipnet, Some err) \<Rightarrow>
          Some (Errorf ''%q is not a valid CIDR block: %w'' [AString cidr, AError err])
      | (ip, ipnet, None) \<Rightarrow>
          (case To4 ip of
             Some ipv4 \<Rightarrow> Some (Errorf ''%q is not a valid IPv6 CIDR block'' [AString cidr])
           | None \<Rightarrow>
               if \<not> BlocksEqual cidr (IPNet_String ipnet)
               then Some (Errorf ''%q is not a valid IPv6 CIDR block; did you mean %q?''
                            [AString cidr, AString (IPNet_String ipnet)])
               else None))"

definition ValidIPv4CIDRNetworkAddress ::
  "(string \<Rightarrow> IP \<times> 'n \<times> error option) \<Rightarrow> ('n \<Rightarrow> string) \<Rightarrow> (string \<Rightarrow> string \<Rightarrow> bool)
     \<Rightarrow> SchemaValidateFunc" where
  "ValidIPv4CIDRNetworkAddress ParseCIDR IPNet_String BlocksEqual v k =
     (case v of
        VString s \<Rightarrow>
          (case ValidateIPv4CIDRBlock ParseCIDR IPNet_String BlocksEqual s of
             Some err \<Rightarrow> Return ([], [err])
           | None \<Rightarrow> Return ([], []))
      | _ \<Rightarrow> Panic)"

definition ValidIPv6CIDRNetworkAddress ::
  "(string \<Rightarrow> IP \<times> 'n \<times> error option) \<Rightarrow> ('n \<Rightarrow> string) \<Rightarrow> (string \<Rightarrow> string \<Rightarrow> bool)
     \<Rightarrow> SchemaValidateFunc" where
  "ValidIPv6CIDRNetworkAddress ParseCIDR IPNet_String BlocksEqual v k =
     (case v of
        VString s \<Rightarrow>
          (case ValidateIPv6CIDRBlock ParseCIDR IPNet_String BlocksEqual s of
             Some err \<Rightarrow> Return ([], [err])
           | None \<Rightarrow> Return ([], []))
      | _ \<Rightarrow> Panic)"

subsection \<open>JSON policies, key and template identifiers\<close>

text \<open>
  \<open>ValidIAMPolicyJSON\<close>, over the SDK's \<^verbatim>\<open>structure.NormalizeJsonString\<close>, which takes
  the untyped value and may itself panic.
\<close>

definition ValidIAMPolicyJSON ::
  "(go_value \<Rightarrow> (string \<times> error option) outcome) \<Rightarrow> SchemaValidateFunc" where
  "ValidIAMPolicyJSON NormalizeJsonString v k =
     (case v of
        VString value \<Rightarrow>
          if length value < 1
          then Return ([], [Errorf ''%q contains an invalid JSON policy'' [AString k]])
          else if take 1 value \<noteq> ''{''
          then Return ([], [Errorf ''%q contains an invalid JSON policy'' [AString k]])
          else
            (case NormalizeJsonString v of
               Panic \<Rightarrow> Panic
             | Return (s, Some err) \<Rightarrow>
                 Return ([], [Errorf ''%q contains an invalid JSON: %s'' [AString k, AError err]])
             | Return (s, None) \<Rightarrow> Return ([], []))
      | _ \<Rightarrow> Panic)"

definition ValidKMSKeyID :: SchemaValidateFunc where
  "ValidKMSKeyID v k =
     (case v of
        VString value \<Rightarrow>
          if length value < 1
          then Return ([], [Errorf ''%q cannot be shorter than 1 character'' [AString k]])
          else if length value > 2048
          then Return ([], [Errorf ''%q cannot be longer than 2048 characters'' [AString k]])
          else Return ([], [])
      | _ \<Rightarrow> Panic)"

text \<open>\<^verbatim>\<open>^lt\-[a-z0-9]+$\<close>\<close>

definition ValidLaunchTemplateID_pattern :: Regexp where
  "ValidLaunchTemplateID_pattern =
     (''^lt'' @ CHR 0x5C # ''-[a-z0-9]+$'',
      Then (rx_lit ''lt-'') (rx_plus (Or rx_lower rx_digit)))"

definition ValidLaunchTemplateID :: SchemaValidateFunc where
  "ValidLaunchTemplateID v k =
     (case v of
        VString value \<Rightarrow>
          if length value < 1
          then Return ([], [Errorf ''%q cannot be shorter than 1 character'' [AString k]])
          else if length value > 255
          then Return ([], [Errorf ''%q cannot be longer than 255 characters'' [AString k]])
          else if \<not> MatchString ValidLaunchTemplateID_pattern value
          then Return ([], [Errorf ''%q must begin with 'lt-' and be comprised of only alphanumeric characters: %v''
                              [AString k, AString value]])
          else Return ([], [])
      | _ \<Rightarrow> Panic)"

definition HasSuffix :: "string \<Rightarrow> string \<Rightarrow> bool" where
  "HasSuffix s suffix =
     (length suffix \<le> length s \<and> drop (length s - length suffix) s = suffix)"

text \<open>\<^verbatim>\<open>^[0-9a-zA-Z()./_\-]+$\<close>\<close>

definition ValidLaunchTemplateName_pattern :: Regexp where
  "ValidLaunchTemplateName_pattern =
     (''^[0-9a-zA-Z()./_'' @ CHR 0x5C # ''-]+$'',
      rx_plus (rx_alts [rx_digit, rx_lower, Between CHR ''A'' CHR ''Z'', Byte CHR ''('',
                        Byte CHR '')'', Byte CHR ''.'', Byte CHR ''/'', Byte CHR ''_'',
                        Byte CHR ''-'']))"

definition ValidLaunchTemplateName :: SchemaValidateFunc where
  "ValidLaunchTemplateName v k =
     (case v of
        VString value \<Rightarrow>
          if length value < 3
          then Return ([], [Errorf ''%q cannot be less than 3 characters'' [AString k]])
          else if HasSuffix k ''prefix'' \<and> length value > 99
          then Return ([], [Errorf ''%q cannot be longer than 99 characters, name is limited to 125''
                              [AString k]])
          else if \<not> HasSuffix k ''prefix'' \<and> length value > 125
          then Return ([], [Errorf ''%q cannot be longer than 125 characters'' [AString k]])
          else if \<not> MatchString ValidLaunchTemplateName_pattern value
          then Return ([], [Errorf ''%q can only alphanumeric characters and ()./_- symbols''
                              [AString k]])
          else Return ([], [])
      | _ \<Rightarrow> Panic)"

subsection \<open>Multicast addresses\<close>

text \<open>\<^verbatim>\<open>IP.IsMulticast\<close>\<close>

definition IsMulticast :: "IP \<Rightarrow> bool" where
  "IsMulticast ip =
     (case To4 ip of
        Some ip4 \<Rightarrow> (ip4 ! 0) AND 0xf0 = 0xe0
      | None \<Rightarrow> length ip = 16 \<and> ip ! 0 = 0xff)"

text \<open>\<open>validateMulticastIPAddress\<close>, over \<^verbatim>\<open>net.ParseIP\<close> (nil is \<open>None\<close>).\<close>

definition validateMulticastIPAddress :: "(string \<Rightarrow> IP option) \<Rightarrow> string \<Rightarrow> error option" where
  "validateMulticastIPAddress ParseIP s =
     (case ParseIP s of
        None \<Rightarrow> Some (Errorf ''%q is not a valid IP address'' [AString s])
      | Some ip \<Rightarrow>
          if \<not> IsMulticast ip
          then Some (Errorf ''%q is not a valid multicast address'' [AString s])
          else None)"

definition ValidMulticastIPAddress :: "(string \<Rightarrow> IP option) \<Rightarrow> SchemaValidateFunc" where
  "ValidMulticastIPAddress ParseIP v k =
     (case v of
        VString s \<Rightarrow>
          (case validateMulticastIPAddress ParseIP s of
             Some err \<Rightarrow> Return ([], [err])
           | None \<Rightarrow> Return ([], []))
      | _ \<Rightarrow> Panic)"

subsection \<open>Time windows\<close>

text \<open>\<^verbatim>\<open>([0-1][0-9]|2[0-3]):([0-5][0-9])\<close>\<close>

definition rx_hh24mi :: rx where
  "rx_hh24mi =
     Then (Or (Then (Between CHR ''0'' CHR ''1'') (Between CHR ''0'' CHR ''9''))
              (Then (Byte CHR ''2'') (Between CHR ''0'' CHR ''3'')))
       (Then (Byte CHR '':'') (Then (Between CHR ''0'' CHR ''5'') (Between CHR ''0'' CHR ''9'')))"

text \<open>\<^verbatim>\<open>"^(" + validTimeFormat + "-" + validTimeFormat + "|)$"\<close>\<close>

definition OnceADayWindowFormat_pattern :: Regexp where
  "OnceADayWindowFormat_pattern =
     (''^(([0-1][0-9]|2[0-3]):([0-5][0-9])-([0-1][0-9]|2[0-3]):([0-5][0-9])|)$'',
      Or (Then rx_hh24mi (Then (Byte CHR ''-'') rx_hh24mi)) Empty)"

definition ValidateOnceADayWindowFormat :: "string \<Rightarrow> error option" where
  "ValidateOnceADayWindowFormat value =
     (if \<not> MatchString OnceADayWindowFormat_pattern value
      then Some (Errorf ''(%s) must satisfy the format of \"hh24:mi-hh24:mi\"'' [AString value])
      else None)"

definition ValidOnceADayWindowFormat :: SchemaValidateFunc where
  "ValidOnceADayWindowFormat v k =
     (case v of
        VString value \<Rightarrow>
          (case ValidateOnceADayWindowFormat value of
             Some err \<Rightarrow> Return ([], [err])
           | None \<Rightarrow> Return ([], []))
      | _ \<Rightarrow> Panic)"

text \<open>\<^verbatim>\<open>(sun|mon|tue|wed|thu|fri|sat):([0-1][0-9]|2[0-3]):([0-5][0-9])\<close>\<close>

definition rx_dddhh24mi :: rx where
  "rx_dddhh24mi =
     Then (rx_alts [rx_lit ''sun'', rx_lit ''mon'', rx_lit ''tue'', rx_lit ''wed'',
                    rx_lit ''thu'', rx_lit ''fri'', rx_lit ''sat''])
       (Then (Byte CHR '':'') rx_hh24mi)"

definition OnceAWeekWindowFormat_pattern :: Regexp where
  "OnceAWeekWindowFormat_pattern =
     (''^((sun|mon|tue|wed|thu|fri|sat):([0-1][0-9]|2[0-3]):([0-5][0-9])-(sun|mon|tue|wed|thu|fri|sat):([0-1][0-9]|2[0-3]):([0-5][0-9])|)$'',
      Or (Then rx_dddhh24mi (Then (Byte CHR ''-'') rx_dddhh24mi)) Empty)"

text \<open>\<open>ValidateOnceAWeekWindowFormat\<close>, over \<^verbatim>\<open>strings.ToLower\<close>.\<close>

definition ValidateOnceAWeekWindowFormat :: "(string \<Rightarrow> string) \<Rightarrow> string \<Rightarrow> error option" where
  "ValidateOnceAWeekWindowFormat ToLower value =
     (let val = ToLower value in
      if \<not> MatchString OnceAWeekWindowFormat_pattern val
      then Some (Errorf ''(%s) must satisfy the format of \"ddd:hh24:mi-ddd:hh24:mi\"'' [AString val])
      else None)"

definition ValidOnceAWeekWindowFormat :: "(string \<Rightarrow> string) \<Rightarrow> SchemaValidateFunc" where
  "ValidOnceAWeekWindowFormat ToLower v k =
     (case v of
        VString value \<Rightarrow>
          (case ValidateOnceAWeekWindowFormat ToLower value of
             Some err \<Rightarrow> Return ([], [err])
           | None \<Rightarrow> Return ([], []))
      | _ \<Rightarrow> Panic)"

subsection \<open>Region names, JSON or YAML, floats, timestamps, durations\<close>

definition ValidRegionName :: SchemaValidateFunc where
  "ValidRegionName v k =
     (case v of
        VString value \<Rightarrow>
          if value = [] then Return ([], [])
          else if \<not> MatchString regionRegexp value
          then Return ([], [Errorf ''%q region name is malformed(%q): %q''
                              [AString k, AString (Regexp_String regionRegexp), AString value]])
          else Return ([], [])
      | _ \<Rightarrow> Panic)"


text \<open>
  \<open>ValidTypeStringNullableFloat\<close>, over the error of
  \<^verbatim>\<open>strconv.ParseFloat(value, 64)\<close>; the parsed float is discarded.
\<close>

definition ValidTypeStringNullableFloat ::
  "(string \<Rightarrow> nat \<Rightarrow> error option) \<Rightarrow> SchemaValidateFunc" where
  "ValidTypeStringNullableFloat ParseFloat v k =
     (case v of
        VString value \<Rightarrow>
          if value = [] then Return ([], [])
          else
            (case ParseFloat value 64 of
               Some err \<Rightarrow>
                 Return ([], [Errorf ''%s: cannot parse '%s' as float: %s''
                                [AString k, AString value, AError err]])
             | None \<Rightarrow> Return ([], []))
      | _ \<Rightarrow> Return ([], [Errorf ''expected type of %s to be string'' [AString k]]))"

text \<open>\<^verbatim>\<open>time.RFC3339\<close>\<close>

definition RFC3339 :: string where
  "RFC3339 = ''2006-01-02T15:04:05Z07:00''"

text \<open>
  \<open>ValidateUTCTimestamp\<close>, over the error of \<^verbatim>\<open>time.Parse(layout, value)\<close>; the parsed
  time is discarded.
\<close>

definition ValidateUTCTimestamp :: "(string \<Rightarrow> string \<Rightarrow> error option) \<Rightarrow> string \<Rightarrow> error option" where
  "ValidateUTCTimestamp time_Parse value =
     (case time_Parse RFC3339 value of
        Some err \<Rightarrow>
          Some (Errorf ''must be in RFC3339 time format %q. Example: %s''
                  [AString RFC3339, AError err])
      | None \<Rightarrow> None)"

definition ValidUTCTimestamp :: "(string \<Rightarrow> string \<Rightarrow> error option) \<Rightarrow> SchemaValidateFunc" where
  "ValidUTCTimestamp time_Parse v k =
     (case v of
        VString value \<Rightarrow>
          (case ValidateUTCTimestamp time_Parse value of
             Some err \<Rightarrow> Return ([], [err])
           | None \<Rightarrow> Return ([], []))
      | _ \<Rightarrow> Panic)"

text \<open>
  \<open>ValidDuration\<close>, over \<^verbatim>\<open>time.ParseDuration\<close>, which returns a
  \<^verbatim>\<open>time.Duration\<close> (an int64 of nanoseconds) and an error. Both tests run, one after
  the other.
\<close>

definition ValidDuration :: "(string \<Rightarrow> int64 \<times> error option) \<Rightarrow> SchemaValidateFunc" where
  "ValidDuration ParseDuration v k =
     (case v of
        VString value \<Rightarrow>
          (case ParseDuration value of
             (duration, err) \<Rightarrow>
               (let errors1 =
                      (case err of
                         Some e \<Rightarrow> [Errorf ''%q cannot be parsed as a duration: %s''
                                      [AString k, AError e]]
                       | None \<Rightarrow> []);
                    errors2 = errors1 @
                      (if sint duration < 0
                       then [Errorf ''%q must be greater than zero'' [AString k]]
                       else [])
                in Return ([], errors2)))
      | _ \<Rightarrow> Panic)"

text \<open>
  \<^verbatim>\<open>v <= threshold\<close> on float64, by the bits: a NaN compares false with everything;
  otherwise sign and magnitude order the values, and both zeros are equal.
\<close>

definition float64_isNaN :: "float64 \<Rightarrow> bool" where
  "float64_isNaN x = (take_bit 11 (drop_bit 52 x) = 0x7FF \<and> take_bit 52 x \<noteq> 0)"

definition float64_key :: "float64 \<Rightarrow> int" where
  "float64_key x = (if bit x 63 then - uint (take_bit 63 x) else uint (take_bit 63 x))"

definition float64_le :: "float64 \<Rightarrow> float64 \<Rightarrow> bool" where
  "float64_le x y = (\<not> float64_isNaN x \<and> \<not> float64_isNaN y \<and> float64_key x \<le> float64_key y)"

definition FloatGreaterThan :: "float64 \<Rightarrow> SchemaValidateFunc" where
  "FloatGreaterThan threshold i k =
     (case i of
        VFloat64 v \<Rightarrow>
          if float64_le v threshold
          then Return ([], [Errorf ''expected %s to be greater than (%f), got %f''
                              [AString k, AFloat64 threshold, AFloat64 v]])
          else Return ([], [])
      | _ \<Rightarrow> Return ([], [Errorf ''expected type of %s to be float'' [AString k]]))"

section \<open>Diagnostic composition helpers\<close>

text \<open>
  A \<^verbatim>\<open>schema.SchemaValidateDiagFunc\<close> takes the value and its path and returns
  diagnostics. The types of values, paths and diagnostics belong to the plugin SDK and
  stay type variables.
\<close>

type_synonym ('v, 'p, 'd) SchemaValidateDiagFunc = "'v \<Rightarrow> 'p \<Rightarrow> 'd list outcome"

text \<open>
  \<^verbatim>\<open>for _, validator := range validators { results = append(results, validator(i, path)...) }\<close>
\<close>

fun ValidAllDiag_loop ::
  "('v, 'p, 'd) SchemaValidateDiagFunc list \<Rightarrow> 'v \<Rightarrow> 'p \<Rightarrow> 'd list \<Rightarrow> 'd list outcome" where
  "ValidAllDiag_loop [] i path results = Return results"
| "ValidAllDiag_loop (validator # rest) i path results =
     (case validator i path of
        Panic \<Rightarrow> Panic
      | Return diags \<Rightarrow> ValidAllDiag_loop rest i path (results @ diags))"

definition ValidAllDiag ::
  "('v, 'p, 'd) SchemaValidateDiagFunc list \<Rightarrow> ('v, 'p, 'd) SchemaValidateDiagFunc" where
  "ValidAllDiag validators i path = ValidAllDiag_loop validators i path []"

text \<open>
  \<^verbatim>\<open>diags := validator(i, path); if len(diags) == 0 { return diag.Diagnostics{} }\<close>
\<close>

fun ValidAnyDiag_loop ::
  "('v, 'p, 'd) SchemaValidateDiagFunc list \<Rightarrow> 'v \<Rightarrow> 'p \<Rightarrow> 'd list \<Rightarrow> 'd list outcome" where
  "ValidAnyDiag_loop [] i path results = Return results"
| "ValidAnyDiag_loop (validator # rest) i path results =
     (case validator i path of
        Panic \<Rightarrow> Panic
      | Return diags \<Rightarrow>
          if length diags = 0 then Return []
          else ValidAnyDiag_loop rest i path (results @ diags))"

definition ValidAnyDiag ::
  "('v, 'p, 'd) SchemaValidateDiagFunc list \<Rightarrow> ('v, 'p, 'd) SchemaValidateDiagFunc" where
  "ValidAnyDiag validators i path = ValidAnyDiag_loop validators i path []"

section \<open>Library results for the examples\<close>

text \<open>
  The examples below need library functions at concrete inputs. \<^verbatim>\<open>arn.Parse\<close> of the
  AWS SDK is short enough to write out: the string must begin with \<^verbatim>\<open>arn:\<close> and
  split at colons into six sections (\<^verbatim>\<open>strings.SplitN(arn, ":", 6)\<close>, the last section
  holding the rest); sections 1 to 5 are partition, service, region, account ID and
  resource.
\<close>

definition HasPrefix :: "string \<Rightarrow> string \<Rightarrow> bool" where
  "HasPrefix s prefix = (length prefix \<le> length s \<and> take (length prefix) s = prefix)"

fun SplitN :: "string \<Rightarrow> char \<Rightarrow> nat \<Rightarrow> string list" where
  "SplitN s sep 0 = []"
| "SplitN s sep (Suc 0) = [s]"
| "SplitN s sep (Suc (Suc n)) =
     (if sep \<in> set s
      then takeWhile (\<lambda>c. c \<noteq> sep) s # SplitN (tl (dropWhile (\<lambda>c. c \<noteq> sep) s)) sep (Suc n)
      else [s])"

definition arn_Parse :: "string \<Rightarrow> ARN \<times> error option" where
  "arn_Parse arn =
     (if \<not> HasPrefix arn ''arn:''
      then (\<lparr>Partition = [], Service = [], Region = [], AccountID = [], Resource = []\<rparr>,
            Some (New ''arn: invalid prefix''))
      else
        (let sections = SplitN arn CHR '':'' 6 in
         if length sections \<noteq> 6
         then (\<lparr>Partition = [], Service = [], Region = [], AccountID = [], Resource = []\<rparr>,
               Some (New ''arn: not enough sections''))
         else (\<lparr>Partition = sections ! 1, Service = sections ! 2, Region = sections ! 3,
                AccountID = sections ! 4, Resource = sections ! 5\<rparr>, None)))"

text \<open>Two secondary checks for the examples: one reports a warning and an error, one panics.\<close>

definition example_check :: ARNCheckFunc where
  "example_check v k parsedARN =
     Return ([''service '' @ Service parsedARN],
             [Errorf ''%q: unexpected service %s'' [AString k, AString (Service parsedARN)]])"

definition panicking_check :: ARNCheckFunc where
  "panicking_check v k parsedARN = Panic"

text \<open>
  \<^verbatim>\<open>time.ParseDuration\<close> on the strings of the examples: \<^verbatim>\<open>"5s"\<close> and \<^verbatim>\<open>"-5s"\<close> are
  plus and minus five seconds in nanoseconds, \<^verbatim>\<open>"abc"\<close> is refused with the zero
  duration. The table answers every other string like \<^verbatim>\<open>"abc"\<close>; no example asks.
\<close>

definition example_ParseDuration :: "string \<Rightarrow> int64 \<times> error option" where
  "example_ParseDuration s =
     (if s = ''5s'' then (5000000000, None)
      else if s = ''-5s'' then (- 5000000000, None)
      else (0, Some (New (''time: invalid duration \"'' @ s @ ''\"''))))"

text \<open>
  A duration parser that is not Go's: it reports an error together with a negative
  duration. It shows what \<open>ValidDuration\<close> itself does with such a result.
\<close>

definition negative_and_error_ParseDuration :: "string \<Rightarrow> int64 \<times> error option" where
  "negative_and_error_ParseDuration s = (- 1, Some (New ''time: invalid duration''))"

text \<open>
  \<^verbatim>\<open>net.ParseCIDR\<close> on the strings of the examples. For IPv4 text it returns the address
  in its 16-byte form and the network with a 4-byte address and mask; for IPv6 text,
  16 bytes each. \<^verbatim>\<open>::ffff:10.0.0.0/120\<close> is IPv6 text with an IPv4-mapped address. The
  network is the pair of its address and its mask. Every other string is answered with
  the parse error, as \<^verbatim>\<open>10.0.0.0/33\<close> is; no example asks for more.
\<close>

definition v4InV6 :: "IP \<Rightarrow> IP" where
  "v4InV6 ip4 = replicate 10 0 @ [0xff, 0xff] @ ip4"

definition example_ParseCIDR :: "string \<Rightarrow> IP \<times> (IP \<times> IP) \<times> error option" where
  "example_ParseCIDR s =
     (if s = ''10.0.0.0/24''
      then (v4InV6 [10, 0, 0, 0], ([10, 0, 0, 0], [255, 255, 255, 0]), None)
      else if s = ''10.0.0.1/24''
      then (v4InV6 [10, 0, 0, 1], ([10, 0, 0, 0], [255, 255, 255, 0]), None)
      else if s = ''2001:db8::/32''
      then ([0x20, 0x01, 0x0d, 0xb8] @ replicate 12 0,
            ([0x20, 0x01, 0x0d, 0xb8] @ replicate 12 0, replicate 4 0xff @ replicate 12 0),
            None)
      else if s = ''::ffff:10.0.0.0/120''
      then (v4InV6 [10, 0, 0, 0], (v4InV6 [10, 0, 0, 0], replicate 15 0xff @ [0]), None)
      else ([], ([], []), Some (New (''invalid CIDR address: '' @ s))))"

text \<open>
  \<^verbatim>\<open>(*net.IPNet).String\<close> and \<^verbatim>\<open>net.IP.String\<close> on the networks and addresses above. An
  address with a 4-byte form is printed in dotted decimal, and its network with the
  prefix length counted in 32 bits.
\<close>

definition example_IPNet_String :: "IP \<times> IP \<Rightarrow> string" where
  "example_IPNet_String n =
     (if n = ([10, 0, 0, 0], [255, 255, 255, 0]) then ''10.0.0.0/24''
      else if n = (v4InV6 [10, 0, 0, 0], replicate 15 0xff @ [0]) then ''10.0.0.0/24''
      else if n = ([0x20, 0x01, 0x0d, 0xb8] @ replicate 12 0, replicate 4 0xff @ replicate 12 0)
      then ''2001:db8::/32''
      else ''<nil>'')"

definition example_IP_String :: "IP \<Rightarrow> string" where
  "example_IP_String ip =
     (if To4 ip = Some [10, 0, 0, 0] then ''10.0.0.0''
      else if To4 ip = Some [10, 0, 0, 1] then ''10.0.0.1''
      else if ip = [0x20, 0x01, 0x0d, 0xb8] @ replicate 12 0 then ''2001:db8::''
      else ''?'')"

text \<open>An alignment check that passes on every input.\<close>

definition aligned :: "string \<Rightarrow> string \<Rightarrow> bool" where
  "aligned cidr1 cidr2 = True"

text \<open>
  \<^verbatim>\<open>strconv.ParseInt(s, 10, 64)\<close> on the string of the examples; every other string
  is answered with a syntax error, and no example asks.
\<close>

definition example_ParseInt :: "string \<Rightarrow> nat \<Rightarrow> nat \<Rightarrow> int64 \<times> error option" where
  "example_ParseInt s base bitSize =
     (if s = ''65000'' then (65000, None)
      else (0, Some (New (''strconv.ParseInt: parsing \"'' @ s @ ''\": invalid syntax''))))"

section \<open>Kinds of values and of results\<close>

fun is_string :: "go_value \<Rightarrow> bool" where
  "is_string (VString s) = True"
| "is_string v = False"

fun is_float64 :: "go_value \<Rightarrow> bool" where
  "is_float64 (VFloat64 x) = True"
| "is_float64 v = False"



section \<open>Properties of the composition helpers\<close>

lemma ValidAllDiag_loop_returns:
  "map (\<lambda>v. v i p) vs = map Return dss \<Longrightarrow>
   ValidAllDiag_loop vs i p acc = Return (acc @ concat dss)"
proof (induction vs arbitrary: acc dss)
  case Nil
  then show ?case by simp
next
  case (Cons v vs)
  then obtain ds rest where dss: "dss = ds # rest" and v: "v i p = Return ds"
    and tl: "map (\<lambda>v. v i p) vs = map Return rest"
    by (cases dss) auto
  from Cons.IH [OF tl] show ?case by (simp add: dss v)
qed

lemma ValidAllDiag_loop_panics:
  "Panic \<in> set (map (\<lambda>v. v i p) vs) \<Longrightarrow> ValidAllDiag_loop vs i p acc = Panic"
proof (induction vs arbitrary: acc)
  case Nil
  then show ?case by simp
next
  case (Cons v vs)
  show ?case
  proof (cases "v i p")
    case Panic
    then show ?thesis by simp
  next
    case (Return ds)
    with Cons.prems have "Panic \<in> set (map (\<lambda>v. v i p) vs)" by auto
    from Cons.IH [OF this] show ?thesis by (simp add: Return)
  qed
qed

lemma ValidAnyDiag_loop_all_fail:
  "map (\<lambda>v. v i p) vs = map Return dss \<Longrightarrow> [] \<notin> set dss \<Longrightarrow>
   ValidAnyDiag_loop vs i p acc = Return (acc @ concat dss)"
proof (induction vs arbitrary: acc dss)
  case Nil
  then show ?case by simp
next
  case (Cons v vs)
  then obtain ds rest where dss: "dss = ds # rest" and v: "v i p = Return ds"
    and tl: "map (\<lambda>v. v i p) vs = map Return rest"
    by (cases dss) auto
  from Cons.prems dss have ne: "ds \<noteq> []" and rest: "[] \<notin> set rest" by auto
  from Cons.IH [OF tl rest] show ?case by (simp add: dss v ne)
qed

lemma ValidAnyDiag_loop_prefix:
  "map (\<lambda>v. v i p) pre = map Return dss \<Longrightarrow> [] \<notin> set dss \<Longrightarrow>
   ValidAnyDiag_loop (pre @ rest) i p acc = ValidAnyDiag_loop rest i p (acc @ concat dss)"
proof (induction pre arbitrary: acc dss)
  case Nil
  then show ?case by simp
next
  case (Cons v vs)
  then obtain ds tl where dss: "dss = ds # tl" and v: "v i p = Return ds"
    and t: "map (\<lambda>v. v i p) vs = map Return tl"
    by (cases dss) auto
  from Cons.prems dss have ne: "ds \<noteq> []" and tl: "[] \<notin> set tl" by auto
  from Cons.IH [OF t tl] show ?case by (simp add: dss v ne)
qed

text \<open>
  C7. The validator built by \<open>ValidAnyDiag\<close> runs its validators in order. The first
  one that returns no diagnostics makes it return the empty diagnostics at once: what
  earlier validators reported is dropped and later validators are not run (they may even
  panic). When every validator returns at least one diagnostic, the result is the
  concatenation of all of them, in order. A panic met before any success propagates.
\<close>

theorem ValidAnyDiag_first_success_or_all:
  "(map (\<lambda>v. v i p) pre = map Return dss \<and> [] \<notin> set dss \<and> v i p = Return []
      \<longrightarrow> ValidAnyDiag (pre @ v # post) i p = Return [])
   \<and> (map (\<lambda>v. v i p) vs = map Return dss \<and> [] \<notin> set dss
      \<longrightarrow> ValidAnyDiag vs i p = Return (concat dss))
   \<and> (map (\<lambda>v. v i p) pre = map Return dss \<and> [] \<notin> set dss \<and> v i p = Panic
      \<longrightarrow> ValidAnyDiag (pre @ v # post) i p = Panic)"
proof (intro conjI impI)
  assume "map (\<lambda>v. v i p) pre = map Return dss \<and> [] \<notin> set dss \<and> v i p = Return []"
  then show "ValidAnyDiag (pre @ v # post) i p = Return []"
    by (simp add: ValidAnyDiag_def ValidAnyDiag_loop_prefix)
next
  assume "map (\<lambda>v. v i p) vs = map Return dss \<and> [] \<notin> set dss"
  then show "ValidAnyDiag vs i p = Return (concat dss)"
    by (simp add: ValidAnyDiag_def ValidAnyDiag_loop_all_fail)
next
  assume "map (\<lambda>v. v i p) pre = map Return dss \<and> [] \<notin> set dss \<and> v i p = Panic"
  then show "ValidAnyDiag (pre @ v # post) i p = Panic"
    by (simp add: ValidAnyDiag_def ValidAnyDiag_loop_prefix)
qed

theorem ValidAnyDiag_first_success_or_all_witness:
  "ValidAnyDiag [\<lambda>i p. Return [''e1'', ''e2''], \<lambda>i p. Return [], \<lambda>i p. Panic] (0::nat) ''path''
     = Return []
   \<and> ValidAnyDiag [\<lambda>i p. Return [''e1'', ''e2''], \<lambda>i p. Return [''e3'']] (0::nat) ''path''
     = Return [''e1'', ''e2'', ''e3'']
   \<and> ValidAnyDiag [\<lambda>i p. Return [''e1'', ''e2''], \<lambda>i p. Panic, \<lambda>i p. Return []] (0::nat) ''path''
     = (Panic :: string list outcome)"
proof -
  let ?f = "(\<lambda>i p. Return [''e1'', ''e2'']) :: (nat, string, string) SchemaValidateDiagFunc"
  let ?g = "(\<lambda>i p. Return [''e3'']) :: (nat, string, string) SchemaValidateDiagFunc"
  let ?ok = "(\<lambda>i p. Return []) :: (nat, string, string) SchemaValidateDiagFunc"
  let ?bad = "(\<lambda>i p. Panic) :: (nat, string, string) SchemaValidateDiagFunc"
  have a: "ValidAnyDiag ([?f] @ ?ok # [?bad]) 0 ''path'' = Return []"
    using ValidAnyDiag_first_success_or_all
      [of 0 "''path''" "[?f]" "[[''e1'', ''e2'']]" ?ok "[?bad]"]
    by simp
  have b: "ValidAnyDiag [?f, ?g] 0 ''path'' = Return (concat [[''e1'', ''e2''], [''e3'']])"
    using ValidAnyDiag_first_success_or_all
      [of 0 "''path''" "[]" "[[''e1'', ''e2''], [''e3'']]" ?ok "[]" "[?f, ?g]"]
    by simp
  have c: "ValidAnyDiag ([?f] @ ?bad # [?ok]) 0 ''path'' = Panic"
    using ValidAnyDiag_first_success_or_all
      [of 0 "''path''" "[?f]" "[[''e1'', ''e2'']]" ?bad "[?ok]"]
    by simp
  from a b c show ?thesis by simp
qed

text \<open>
  C8. The validator built by \<open>ValidAllDiag\<close> runs every supplied validator on the same
  input and returns the concatenation of their diagnostics in order. Nothing is skipped
  after a failure: a panic of any validator, wherever it stands, is reached. With two
  validators, one reporting exactly one diagnostic and the other none, the result is
  exactly that one diagnostic, in either order.
\<close>

theorem ValidAllDiag_concat_all:
  "(map (\<lambda>v. v i p) vs = map Return dss
      \<longrightarrow> ValidAllDiag vs i p = Return (concat dss))
   \<and> (Panic \<in> set (map (\<lambda>v. v i p) vs) \<longrightarrow> ValidAllDiag vs i p = Panic)
   \<and> (v1 i p = Return [d] \<and> v2 i p = Return []
      \<longrightarrow> ValidAllDiag [v1, v2] i p = Return [d] \<and> ValidAllDiag [v2, v1] i p = Return [d])"
proof (intro conjI impI)
  assume "map (\<lambda>v. v i p) vs = map Return dss"
  then show "ValidAllDiag vs i p = Return (concat dss)"
    by (simp add: ValidAllDiag_def ValidAllDiag_loop_returns)
next
  assume "Panic \<in> set (map (\<lambda>v. v i p) vs)"
  then show "ValidAllDiag vs i p = Panic"
    unfolding ValidAllDiag_def by (rule ValidAllDiag_loop_panics)
next
  assume "v1 i p = Return [d] \<and> v2 i p = Return []"
  then show "ValidAllDiag [v1, v2] i p = Return [d]" by (simp add: ValidAllDiag_def)
next
  assume "v1 i p = Return [d] \<and> v2 i p = Return []"
  then show "ValidAllDiag [v2, v1] i p = Return [d]" by (simp add: ValidAllDiag_def)
qed

theorem ValidAllDiag_concat_all_witness:
  "ValidAllDiag [\<lambda>i p. Return [''e1''], \<lambda>i p. Return [], \<lambda>i p. Return [''e2'', ''e3'']]
      (0::nat) ''path'' = Return [''e1'', ''e2'', ''e3'']
   \<and> ValidAllDiag [\<lambda>i p. Return [''e1''], \<lambda>i p. Panic] (0::nat) ''path''
      = (Panic :: string list outcome)
   \<and> length (case ValidAllDiag [\<lambda>i p. Return [''e1''], \<lambda>i p. Return []] (0::nat) ''path''
               of Return ds \<Rightarrow> ds | Panic \<Rightarrow> []) = 1"
proof -
  let ?f = "(\<lambda>i p. Return [''e1'']) :: (nat, string, string) SchemaValidateDiagFunc"
  let ?g = "(\<lambda>i p. Return [''e2'', ''e3'']) :: (nat, string, string) SchemaValidateDiagFunc"
  let ?ok = "(\<lambda>i p. Return []) :: (nat, string, string) SchemaValidateDiagFunc"
  let ?bad = "(\<lambda>i p. Panic) :: (nat, string, string) SchemaValidateDiagFunc"
  have a: "ValidAllDiag [?f, ?ok, ?g] 0 ''path'' = Return (concat [[''e1''], [], [''e2'', ''e3'']])"
    using ValidAllDiag_concat_all
      [of 0 "''path''" "[?f, ?ok, ?g]" "[[''e1''], [], [''e2'', ''e3'']]" ?f "''e1''" ?ok]
    by simp
  have b: "ValidAllDiag [?f, ?bad] 0 ''path'' = Panic"
    using ValidAllDiag_concat_all [of 0 "''path''" "[?f, ?bad]" "[]" ?f "''e1''" ?ok]
    by simp
  have c: "ValidAllDiag [?f, ?ok] 0 ''path'' = Return [''e1'']"
    using ValidAllDiag_concat_all [of 0 "''path''" "[]" "[]" ?f "''e1''" ?ok]
    by (simp, blast)
  from a b c show ?thesis by simp
qed

section \<open>Properties of the ARN validator\<close>

lemma ValidARNCheck_loop_returns:
  "map (\<lambda>f. f v k a) fs = map Return res \<Longrightarrow>
   ValidARNCheck_loop fs v k a ws es =
     Return (ws @ concat (map fst res), es @ concat (map snd res))"
proof (induction fs arbitrary: ws es res)
  case Nil
  then show ?case by simp
next
  case (Cons f fs)
  then obtain r rest where res: "res = r # rest" and f: "f v k a = Return r"
    and tl: "map (\<lambda>f. f v k a) fs = map Return rest"
    by (cases res) auto
  obtain w e where r: "r = (w, e)" by (cases r)
  from Cons.IH [OF tl] show ?case by (simp add: res f r)
qed

lemma ValidARNCheck_loop_panics:
  "Panic \<in> set (map (\<lambda>f. f v k a) fs) \<Longrightarrow> ValidARNCheck_loop fs v k a ws es = Panic"
proof (induction fs arbitrary: ws es)
  case Nil
  then show ?case by simp
next
  case (Cons f fs)
  show ?case
  proof (cases "f v k a")
    case Panic
    then show ?thesis by simp
  next
    case (Return r)
    obtain w e where r: "r = (w, e)" by (cases r)
    from Cons.prems Return have "Panic \<in> set (map (\<lambda>f. f v k a) fs)" by auto
    from Cons.IH [OF this] show ?thesis by (simp add: Return r)
  qed
qed

lemma arn_Parse_two_malformed:
  "arn_Parse ''arn:aws:iam:us_east_1:12345:role/x'' =
     (\<lparr>Partition = ''aws'', Service = ''iam'', Region = ''us_east_1'', AccountID = ''12345'',
       Resource = ''role/x''\<rparr>, None)"
  by (simp add: arn_Parse_def HasPrefix_def eval_nat_numeral)


lemma arn_Parse_not_an_arn:
  "arn_Parse ''not-an-arn'' =
     (\<lparr>Partition = [], Service = [], Region = [], AccountID = [], Resource = []\<rparr>,
      Some (New ''arn: invalid prefix''))"
  by (simp add: arn_Parse_def HasPrefix_def)

lemma partition_aws: "MatchString partitionRegexp ''aws''"
  by (simp add: MatchString_def partitionRegexp_def rx_plus_def rx_lower_def)

lemma region_us_east_1_malformed: "\<not> MatchString regionRegexp ''us_east_1''"
  by (simp add: MatchString_def regionRegexp_def rx_plus_def rx_lower_def rx_digit_def
      eval_nat_numeral)

lemma account_12345_malformed: "\<not> MatchString accountIDRegexp ''12345''"
  by (simp add: MatchString_def accountIDRegexp_def rx_digit_def eval_nat_numeral)

text \<open>
  C2. For a non-empty string that \<^verbatim>\<open>arn.Parse\<close> accepts, the validator built by
  \<open>ValidARNCheck\<close> runs the four subfield checks one after the other, none depending on
  another: the partition must be non-empty and match its pattern, the region and the
  account ID must match theirs when non-empty, the resource must be non-empty. Each
  failing check appends its own error. Then every secondary check runs, whatever the
  four checks found, and its warnings and errors are appended in order (a panic of a
  secondary check is reached too). An ARN whose region and account ID are both malformed,
  and nothing else, gives exactly two errors.
\<close>

theorem ValidARNCheck_all_checks_run:
  "(val \<noteq> [] \<and> P val = (a, None)
      \<and> map (\<lambda>f. f (VString val) k a) fs = map Return res
    \<longrightarrow> ValidARNCheck P fs (VString val) k =
        Return (concat (map fst res),
          (if Partition a = []
           then [Errorf ''%q (%s) is an invalid ARN: missing partition value''
                   [AString k, AString val]]
           else if \<not> MatchString partitionRegexp (Partition a)
           then [Errorf ''%q (%s) is an invalid ARN: invalid partition value (expecting to match regular expression: %s)''
                   [AString k, AString val, AString (Regexp_String partitionRegexp)]]
           else [])
          @ (if Region a \<noteq> [] \<and> \<not> MatchString regionRegexp (Region a)
             then [Errorf ''%q (%s) is an invalid ARN: invalid region value (expecting to match regular expression: %s)''
                     [AString k, AString val, AString (Regexp_String regionRegexp)]]
             else [])
          @ (if AccountID a \<noteq> [] \<and> \<not> MatchString accountIDRegexp (AccountID a)
             then [Errorf ''%q (%s) is an invalid ARN: invalid account ID value (expecting to match regular expression: %s)''
                     [AString k, AString val, AString (Regexp_String accountIDRegexp)]]
             else [])
          @ (if Resource a = []
             then [Errorf ''%q (%s) is an invalid ARN: missing resource value''
                     [AString k, AString val]]
             else [])
          @ concat (map snd res)))
   \<and> (val \<noteq> [] \<and> P val = (a, None)
        \<and> Panic \<in> set (map (\<lambda>f. f (VString val) k a) fs)
      \<longrightarrow> ValidARNCheck P fs (VString val) k = Panic)
   \<and> (val \<noteq> [] \<and> P val = (a, None)
        \<and> Partition a \<noteq> [] \<and> MatchString partitionRegexp (Partition a)
        \<and> Region a \<noteq> [] \<and> \<not> MatchString regionRegexp (Region a)
        \<and> AccountID a \<noteq> [] \<and> \<not> MatchString accountIDRegexp (AccountID a)
        \<and> Resource a \<noteq> []
      \<longrightarrow> ValidARNCheck P [] (VString val) k =
          Return ([],
            [Errorf ''%q (%s) is an invalid ARN: invalid region value (expecting to match regular expression: %s)''
               [AString k, AString val, AString (Regexp_String regionRegexp)],
             Errorf ''%q (%s) is an invalid ARN: invalid account ID value (expecting to match regular expression: %s)''
               [AString k, AString val, AString (Regexp_String accountIDRegexp)]]))"
proof (intro conjI impI)
  assume h: "val \<noteq> [] \<and> P val = (a, None)
      \<and> map (\<lambda>f. f (VString val) k a) fs = map Return res"
  then have l: "\<And>ws es. ValidARNCheck_loop fs (VString val) k a ws es =
      Return (ws @ concat (map fst res), es @ concat (map snd res))"
    by (simp add: ValidARNCheck_loop_returns)
  from h show "ValidARNCheck P fs (VString val) k =
        Return (concat (map fst res),
          (if Partition a = []
           then [Errorf ''%q (%s) is an invalid ARN: missing partition value''
                   [AString k, AString val]]
           else if \<not> MatchString partitionRegexp (Partition a)
           then [Errorf ''%q (%s) is an invalid ARN: invalid partition value (expecting to match regular expression: %s)''
                   [AString k, AString val, AString (Regexp_String partitionRegexp)]]
           else [])
          @ (if Region a \<noteq> [] \<and> \<not> MatchString regionRegexp (Region a)
             then [Errorf ''%q (%s) is an invalid ARN: invalid region value (expecting to match regular expression: %s)''
                     [AString k, AString val, AString (Regexp_String regionRegexp)]]
             else [])
          @ (if AccountID a \<noteq> [] \<and> \<not> MatchString accountIDRegexp (AccountID a)
             then [Errorf ''%q (%s) is an invalid ARN: invalid account ID value (expecting to match regular expression: %s)''
                     [AString k, AString val, AString (Regexp_String accountIDRegexp)]]
             else [])
          @ (if Resource a = []
             then [Errorf ''%q (%s) is an invalid ARN: missing resource value''
                     [AString k, AString val]]
             else [])
          @ concat (map snd res))"
    unfolding ValidARNCheck_def Let_def
    by (simp only: l go_value.case prod.case option.case if_False append_Nil append_assoc)
next
  assume h: "val \<noteq> [] \<and> P val = (a, None)
        \<and> Panic \<in> set (map (\<lambda>f. f (VString val) k a) fs)"
  then show "ValidARNCheck P fs (VString val) k = Panic"
    unfolding ValidARNCheck_def Let_def
    by (simp only: ValidARNCheck_loop_panics go_value.case prod.case option.case if_False)
next
  assume h: "val \<noteq> [] \<and> P val = (a, None)
        \<and> Partition a \<noteq> [] \<and> MatchString partitionRegexp (Partition a)
        \<and> Region a \<noteq> [] \<and> \<not> MatchString regionRegexp (Region a)
        \<and> AccountID a \<noteq> [] \<and> \<not> MatchString accountIDRegexp (AccountID a)
        \<and> Resource a \<noteq> []"
  then show "ValidARNCheck P [] (VString val) k =
          Return ([],
            [Errorf ''%q (%s) is an invalid ARN: invalid region value (expecting to match regular expression: %s)''
               [AString k, AString val, AString (Regexp_String regionRegexp)],
             Errorf ''%q (%s) is an invalid ARN: invalid account ID value (expecting to match regular expression: %s)''
               [AString k, AString val, AString (Regexp_String accountIDRegexp)]])"
    unfolding ValidARNCheck_def Let_def by simp
qed

theorem ValidARNCheck_all_checks_run_witness:
  "ValidARNCheck arn_Parse [] (VString ''arn:aws:iam:us_east_1:12345:role/x'') ''role_arn'' =
     Return ([],
       [Errorf ''%q (%s) is an invalid ARN: invalid region value (expecting to match regular expression: %s)''
          [AString ''role_arn'', AString ''arn:aws:iam:us_east_1:12345:role/x'',
           AString (Regexp_String regionRegexp)],
        Errorf ''%q (%s) is an invalid ARN: invalid account ID value (expecting to match regular expression: %s)''
          [AString ''role_arn'', AString ''arn:aws:iam:us_east_1:12345:role/x'',
           AString (Regexp_String accountIDRegexp)]])
   \<and> ValidARNCheck arn_Parse [example_check, example_check]
        (VString ''arn:aws:iam:us_east_1:12345:role/x'') ''role_arn'' =
     Return ([''service iam'', ''service iam''],
       [Errorf ''%q (%s) is an invalid ARN: invalid region value (expecting to match regular expression: %s)''
          [AString ''role_arn'', AString ''arn:aws:iam:us_east_1:12345:role/x'',
           AString (Regexp_String regionRegexp)],
        Errorf ''%q (%s) is an invalid ARN: invalid account ID value (expecting to match regular expression: %s)''
          [AString ''role_arn'', AString ''arn:aws:iam:us_east_1:12345:role/x'',
           AString (Regexp_String accountIDRegexp)],
        Errorf ''%q: unexpected service %s'' [AString ''role_arn'', AString ''iam''],
        Errorf ''%q: unexpected service %s'' [AString ''role_arn'', AString ''iam'']])
   \<and> ValidARNCheck arn_Parse [example_check, panicking_check]
        (VString ''arn:aws:iam:us_east_1:12345:role/x'') ''role_arn'' = Panic"
proof -
  let ?v = "''arn:aws:iam:us_east_1:12345:role/x''"
  let ?a = "\<lparr>Partition = ''aws'', Service = ''iam'', Region = ''us_east_1'',
             AccountID = ''12345'', Resource = ''role/x''\<rparr>"
  let ?r = "([''service iam''],
             [Errorf ''%q: unexpected service %s'' [AString ''role_arn'', AString ''iam'']])"
  note t = ValidARNCheck_all_checks_run [where P = arn_Parse and val = ?v and a = ?a
      and k = "''role_arn''"]
  have two: "ValidARNCheck arn_Parse [] (VString ?v) ''role_arn'' =
     Return ([],
       [Errorf ''%q (%s) is an invalid ARN: invalid region value (expecting to match regular expression: %s)''
          [AString ''role_arn'', AString ?v, AString (Regexp_String regionRegexp)],
        Errorf ''%q (%s) is an invalid ARN: invalid account ID value (expecting to match regular expression: %s)''
          [AString ''role_arn'', AString ?v, AString (Regexp_String accountIDRegexp)]])"
    using t [of "[]" "[]", THEN conjunct2, THEN conjunct2] arn_Parse_two_malformed
      partition_aws region_us_east_1_malformed account_12345_malformed
    by simp
  have all: "ValidARNCheck arn_Parse [example_check, example_check] (VString ?v) ''role_arn'' =
     Return ([''service iam'', ''service iam''],
       [Errorf ''%q (%s) is an invalid ARN: invalid region value (expecting to match regular expression: %s)''
          [AString ''role_arn'', AString ?v, AString (Regexp_String regionRegexp)],
        Errorf ''%q (%s) is an invalid ARN: invalid account ID value (expecting to match regular expression: %s)''
          [AString ''role_arn'', AString ?v, AString (Regexp_String accountIDRegexp)],
        Errorf ''%q: unexpected service %s'' [AString ''role_arn'', AString ''iam''],
        Errorf ''%q: unexpected service %s'' [AString ''role_arn'', AString ''iam'']])"
    using t [of "[example_check, example_check]" "[?r, ?r]", THEN conjunct1]
      arn_Parse_two_malformed partition_aws region_us_east_1_malformed
      account_12345_malformed
    by (simp add: example_check_def)
  have pan: "ValidARNCheck arn_Parse [example_check, panicking_check] (VString ?v) ''role_arn''
      = Panic"
    using t [of "[example_check, panicking_check]" "[]", THEN conjunct2, THEN conjunct1]
      arn_Parse_two_malformed
    by (simp add: panicking_check_def)
  from two all pan show ?thesis by (intro conjI)
qed

text \<open>
  C9. On the empty string the validator built by \<open>ValidARNCheck\<close> returns no warning
  and no error. On a non-empty string that \<^verbatim>\<open>arn.Parse\<close> rejects it returns exactly one
  error, the parse error, and returns at once: the result holds whatever the secondary
  checks are (they may panic), and none of the four subfield errors is in it.
\<close>

theorem ValidARNCheck_empty_or_unparsable:
  "ValidARNCheck P fs (VString []) k = Return ([], [])
   \<and> (val \<noteq> [] \<and> P val = (a, Some err)
      \<longrightarrow> ValidARNCheck P fs (VString val) k =
          Return ([], [Errorf ''%q (%s) is an invalid ARN: %s''
                         [AString k, AString val, AError err]]))"
  by (simp add: ValidARNCheck_def)

theorem ValidARNCheck_empty_or_unparsable_witness:
  "ValidARNCheck arn_Parse [panicking_check] (VString []) ''arn'' = Return ([], [])
   \<and> ValidARNCheck arn_Parse [panicking_check] (VString ''not-an-arn'') ''arn'' =
       Return ([], [Errorf ''%q (%s) is an invalid ARN: %s''
                      [AString ''arn'', AString ''not-an-arn'',
                       AError (New ''arn: invalid prefix'')]])"
  using ValidARNCheck_empty_or_unparsable
    [where P = arn_Parse and fs = "[panicking_check]" and k = "''arn''"
       and val = "''not-an-arn''"
       and a = "\<lparr>Partition = [], Service = [], Region = [], AccountID = [], Resource = []\<rparr>"
       and err = "New ''arn: invalid prefix''"]
    arn_Parse_not_an_arn
  by simp

section \<open>Properties of the duration validator\<close>

text \<open>
  C3. \<open>ValidDuration\<close> on a string: when \<^verbatim>\<open>time.ParseDuration\<close> returns a negative
  duration and no error (\<^verbatim>\<open>"-5s"\<close>) it fails with the one error of the sign test; when
  the parse fails (\<^verbatim>\<open>"abc"\<close>) it fails with the parse error; when the parse succeeds
  with a duration that is not negative (\<^verbatim>\<open>"5s"\<close>) it succeeds. The two tests are
  independent and the second is not skipped after the first has failed: a negative
  duration adds its own error after a parse error, should the parser return both.
\<close>

theorem ValidDuration_two_independent_checks:
  "(P s = (d, None) \<and> sint d < 0
      \<longrightarrow> ValidDuration P (VString s) k =
          Return ([], [Errorf ''%q must be greater than zero'' [AString k]]))
   \<and> (P s = (d, Some e) \<and> \<not> sint d < 0
      \<longrightarrow> ValidDuration P (VString s) k =
          Return ([], [Errorf ''%q cannot be parsed as a duration: %s'' [AString k, AError e]]))
   \<and> (P s = (d, None) \<and> \<not> sint d < 0
      \<longrightarrow> ValidDuration P (VString s) k = Return ([], []))
   \<and> (P s = (d, Some e) \<and> sint d < 0
      \<longrightarrow> ValidDuration P (VString s) k =
          Return ([], [Errorf ''%q cannot be parsed as a duration: %s'' [AString k, AError e],
                       Errorf ''%q must be greater than zero'' [AString k]]))"
  by (simp add: ValidDuration_def)

theorem ValidDuration_two_independent_checks_witness:
  "ValidDuration example_ParseDuration (VString ''-5s'') ''ttl'' =
     Return ([], [Errorf ''%q must be greater than zero'' [AString ''ttl'']])
   \<and> ValidDuration example_ParseDuration (VString ''abc'') ''ttl'' =
     Return ([], [Errorf ''%q cannot be parsed as a duration: %s''
                    [AString ''ttl'', AError (New ''time: invalid duration \"abc\"'')]])
   \<and> ValidDuration example_ParseDuration (VString ''5s'') ''ttl'' = Return ([], [])
   \<and> ValidDuration negative_and_error_ParseDuration (VString ''abc'') ''ttl'' =
     Return ([], [Errorf ''%q cannot be parsed as a duration: %s''
                    [AString ''ttl'', AError (New ''time: invalid duration'')],
                  Errorf ''%q must be greater than zero'' [AString ''ttl'']])"
proof -
  have neg: "ValidDuration example_ParseDuration (VString ''-5s'') ''ttl'' =
     Return ([], [Errorf ''%q must be greater than zero'' [AString ''ttl'']])"
    using ValidDuration_two_independent_checks
      [where P = example_ParseDuration and s = "''-5s''" and d = "- 5000000000"
         and k = "''ttl''", THEN conjunct1]
    by (simp add: example_ParseDuration_def)
  have bad: "ValidDuration example_ParseDuration (VString ''abc'') ''ttl'' =
     Return ([], [Errorf ''%q cannot be parsed as a duration: %s''
                    [AString ''ttl'', AError (New ''time: invalid duration \"abc\"'')]])"
    using ValidDuration_two_independent_checks
      [where P = example_ParseDuration and s = "''abc''" and d = 0
         and e = "New ''time: invalid duration \"abc\"''"
         and k = "''ttl''", THEN conjunct2, THEN conjunct1]
    by (simp add: example_ParseDuration_def)
  have ok: "ValidDuration example_ParseDuration (VString ''5s'') ''ttl'' = Return ([], [])"
    using ValidDuration_two_independent_checks
      [where P = example_ParseDuration and s = "''5s''" and d = 5000000000
         and k = "''ttl''", THEN conjunct2, THEN conjunct2, THEN conjunct1]
    by (simp add: example_ParseDuration_def)
  have both: "ValidDuration negative_and_error_ParseDuration (VString ''abc'') ''ttl'' =
     Return ([], [Errorf ''%q cannot be parsed as a duration: %s''
                    [AString ''ttl'', AError (New ''time: invalid duration'')],
                  Errorf ''%q must be greater than zero'' [AString ''ttl'']])"
    using ValidDuration_two_independent_checks
      [where P = negative_and_error_ParseDuration and s = "''abc''" and d = "- 1"
         and e = "New ''time: invalid duration''"
         and k = "''ttl''", THEN conjunct2, THEN conjunct2, THEN conjunct2]
    by (simp add: negative_and_error_ParseDuration_def)
  from neg bad ok both show ?thesis by (intro conjI)
qed

text \<open>
  C4. \<^verbatim>\<open>time.ParseDuration\<close> returns the zero duration with every error. For a parser
  that does, \<open>ValidDuration\<close> returns at most one error on every string: zero is not
  negative, so the sign test adds nothing after a parse error.
\<close>

theorem ValidDuration_at_most_one_error:
  "(snd (P s) \<noteq> None \<longrightarrow> fst (P s) = 0)
   \<longrightarrow> (\<exists>es. ValidDuration P (VString s) k = Return ([], es) \<and> length es \<le> 1)"
  by (cases "P s") (auto simp: ValidDuration_def split: option.splits)

theorem ValidDuration_at_most_one_error_witness:
  "(\<exists>es. ValidDuration example_ParseDuration (VString ''abc'') ''ttl'' = Return ([], es)
         \<and> length es \<le> 1)
   \<and> (\<exists>es. ValidDuration example_ParseDuration (VString ''-5s'') ''ttl'' = Return ([], es)
         \<and> length es \<le> 1)"
proof -
  have a: "\<exists>es. ValidDuration example_ParseDuration (VString ''abc'') ''ttl'' = Return ([], es)
         \<and> length es \<le> 1"
    using ValidDuration_at_most_one_error
      [where P = example_ParseDuration and s = "''abc''" and k = "''ttl''"]
    by (simp add: example_ParseDuration_def)
  have b: "\<exists>es. ValidDuration example_ParseDuration (VString ''-5s'') ''ttl'' = Return ([], es)
         \<and> length es \<le> 1"
    using ValidDuration_at_most_one_error
      [where P = example_ParseDuration and s = "''-5s''" and k = "''ttl''"]
    by (simp add: example_ParseDuration_def)
  from a b show ?thesis by (intro conjI)
qed

section \<open>Properties of the CIDR validators\<close>

lemma To4_v4InV6: "To4 (v4InV6 [a, b, c, d]) = Some [a, b, c, d]"
  by (simp add: To4_def v4InV6_def eval_nat_numeral)

lemma To4_2001_db8: "To4 ([0x20, 0x01, 0x0d, 0xb8] @ replicate 12 0) = None"
  by (simp add: To4_def eval_nat_numeral)

lemma example_ParseCIDR_10_0_0_0:
  "example_ParseCIDR ''10.0.0.0/24'' =
     (v4InV6 [10, 0, 0, 0], ([10, 0, 0, 0], [255, 255, 255, 0]), None)"
  by (simp add: example_ParseCIDR_def)

lemma example_ParseCIDR_10_0_0_1:
  "example_ParseCIDR ''10.0.0.1/24'' =
     (v4InV6 [10, 0, 0, 1], ([10, 0, 0, 0], [255, 255, 255, 0]), None)"
  by (simp add: example_ParseCIDR_def)

lemma example_ParseCIDR_10_0_0_0_33:
  "example_ParseCIDR ''10.0.0.0/33'' =
     ([], ([], []), Some (New ''invalid CIDR address: 10.0.0.0/33''))"
  by (simp add: example_ParseCIDR_def)

lemma example_ParseCIDR_2001_db8:
  "example_ParseCIDR ''2001:db8::/32'' =
     ([0x20, 0x01, 0x0d, 0xb8] @ replicate 12 0,
      ([0x20, 0x01, 0x0d, 0xb8] @ replicate 12 0, replicate 4 0xff @ replicate 12 0), None)"
  by (simp add: example_ParseCIDR_def)

lemma example_ParseCIDR_mapped:
  "example_ParseCIDR ''::ffff:10.0.0.0/120'' =
     (v4InV6 [10, 0, 0, 0], (v4InV6 [10, 0, 0, 0], replicate 15 0xff @ [0]), None)"
  by (simp add: example_ParseCIDR_def)

lemma example_IPNet_String_10_0_0_0:
  "example_IPNet_String ([10, 0, 0, 0], [255, 255, 255, 0]) = ''10.0.0.0/24''"
  by (simp add: example_IPNet_String_def)

lemma example_IPNet_String_mapped:
  "example_IPNet_String (v4InV6 [10, 0, 0, 0], replicate 15 0xff @ [0]) = ''10.0.0.0/24''"
  by (simp add: example_IPNet_String_def v4InV6_def eval_nat_numeral)

lemma example_IPNet_String_2001_db8:
  "example_IPNet_String
     ([0x20, 0x01, 0x0d, 0xb8] @ replicate 12 0, replicate 4 0xff @ replicate 12 0)
   = ''2001:db8::/32''"
  by (simp add: example_IPNet_String_def v4InV6_def eval_nat_numeral)

lemma example_IP_String_10_0_0_0: "example_IP_String (v4InV6 [10, 0, 0, 0]) = ''10.0.0.0''"
  by (simp add: example_IP_String_def To4_v4InV6)

lemma example_IP_String_10_0_0_1: "example_IP_String (v4InV6 [10, 0, 0, 1]) = ''10.0.0.1''"
  by (simp add: example_IP_String_def To4_v4InV6)

text \<open>
  C5. \<open>ValidateCIDRBlock\<close>, with \<open>CIDRBlocksEqual\<close> as the spec describes it. A string
  that \<^verbatim>\<open>net.ParseCIDR\<close> rejects gives the parse error. A string that is the canonical
  form of its own network (\<^verbatim>\<open>10.0.0.0/24\<close>) passes. A string that parses and has host
  bits set, that is, the canonical form of its network parses to an address that is
  printed differently from its own (\<^verbatim>\<open>10.0.0.1/24\<close>), gives an error that carries the
  canonical form as its suggestion.
\<close>

theorem ValidateCIDRBlock_canonical_network_form:
  "(P cidr = (ip, n, Some err)
      \<longrightarrow> ValidateCIDRBlock P SN (CIDRBlocksEqual P SI SN) cidr =
          Some (Errorf ''%q is not a valid CIDR block: %w'' [AString cidr, AError err]))
   \<and> (P cidr = (ip, n, None) \<and> SN n = cidr
      \<longrightarrow> ValidateCIDRBlock P SN (CIDRBlocksEqual P SI SN) cidr = None)
   \<and> (P cidr = (ip, n, None) \<and> P (SN n) = (ip', n', None) \<and> SI ip' \<noteq> SI ip
      \<longrightarrow> ValidateCIDRBlock P SN (CIDRBlocksEqual P SI SN) cidr =
          Some (Errorf ''%q is not a valid CIDR block; did you mean %q?''
                  [AString cidr, AString (SN n)]))"
  by (simp add: ValidateCIDRBlock_def CIDRBlocksEqual_def)

theorem ValidateCIDRBlock_canonical_network_form_witness:
  "ValidateCIDRBlock example_ParseCIDR example_IPNet_String
     (CIDRBlocksEqual example_ParseCIDR example_IP_String example_IPNet_String) ''10.0.0.0/33''
     = Some (Errorf ''%q is not a valid CIDR block: %w''
               [AString ''10.0.0.0/33'', AError (New ''invalid CIDR address: 10.0.0.0/33'')])
   \<and> ValidateCIDRBlock example_ParseCIDR example_IPNet_String
     (CIDRBlocksEqual example_ParseCIDR example_IP_String example_IPNet_String) ''10.0.0.0/24''
     = None
   \<and> ValidateCIDRBlock example_ParseCIDR example_IPNet_String
     (CIDRBlocksEqual example_ParseCIDR example_IP_String example_IPNet_String) ''10.0.0.1/24''
     = Some (Errorf ''%q is not a valid CIDR block; did you mean %q?''
               [AString ''10.0.0.1/24'', AString ''10.0.0.0/24''])"
proof -
  note t = ValidateCIDRBlock_canonical_network_form
    [where P = example_ParseCIDR and SN = example_IPNet_String and SI = example_IP_String]
  have bad: "ValidateCIDRBlock example_ParseCIDR example_IPNet_String
     (CIDRBlocksEqual example_ParseCIDR example_IP_String example_IPNet_String) ''10.0.0.0/33''
     = Some (Errorf ''%q is not a valid CIDR block: %w''
               [AString ''10.0.0.0/33'', AError (New ''invalid CIDR address: 10.0.0.0/33'')])"
    using t [where cidr = "''10.0.0.0/33''" and ip = "[]" and n = "([], [])"
        and err = "New ''invalid CIDR address: 10.0.0.0/33''", THEN conjunct1]
      example_ParseCIDR_10_0_0_0_33
    by simp
  have ok: "ValidateCIDRBlock example_ParseCIDR example_IPNet_String
     (CIDRBlocksEqual example_ParseCIDR example_IP_String example_IPNet_String) ''10.0.0.0/24''
     = None"
    using t [where cidr = "''10.0.0.0/24''" and ip = "v4InV6 [10, 0, 0, 0]"
        and n = "([10, 0, 0, 0], [255, 255, 255, 0])", THEN conjunct2, THEN conjunct1]
      example_ParseCIDR_10_0_0_0 example_IPNet_String_10_0_0_0
    by simp
  have host: "ValidateCIDRBlock example_ParseCIDR example_IPNet_String
     (CIDRBlocksEqual example_ParseCIDR example_IP_String example_IPNet_String) ''10.0.0.1/24''
     = Some (Errorf ''%q is not a valid CIDR block; did you mean %q?''
               [AString ''10.0.0.1/24'', AString ''10.0.0.0/24''])"
    using t [where cidr = "''10.0.0.1/24''" and ip = "v4InV6 [10, 0, 0, 1]"
        and n = "([10, 0, 0, 0], [255, 255, 255, 0])" and ip' = "v4InV6 [10, 0, 0, 0]"
        and n' = "([10, 0, 0, 0], [255, 255, 255, 0])", THEN conjunct2, THEN conjunct2]
      example_ParseCIDR_10_0_0_1 example_ParseCIDR_10_0_0_0 example_IPNet_String_10_0_0_0
      example_IP_String_10_0_0_0 example_IP_String_10_0_0_1
    by simp
  from bad ok host show ?thesis by (intro conjI)
qed

text \<open>
  C6, as stated, fails: \<^verbatim>\<open>::ffff:10.0.0.0/120\<close> is a syntactically valid IPv6 CIDR
  string, its address is IPv4-mapped and has a 4-byte form, and \<open>ValidateIPv4CIDRBlock\<close>
  returns no error on it, with the alignment check of the spec and with one that passes
  on everything.
\<close>

theorem ValidateIPv4CIDRBlock_accepts_IPv4_mapped:
  "ValidateIPv4CIDRBlock example_ParseCIDR example_IPNet_String
     (CIDRBlocksEqual example_ParseCIDR example_IP_String example_IPNet_String)
     ''::ffff:10.0.0.0/120'' = None
   \<and> ValidateIPv4CIDRBlock example_ParseCIDR example_IPNet_String aligned
     ''::ffff:10.0.0.0/120'' = None"
  by (simp add: ValidateIPv4CIDRBlock_def CIDRBlocksEqual_def aligned_def
      example_ParseCIDR_mapped example_ParseCIDR_10_0_0_0 To4_v4InV6
      example_IPNet_String_mapped example_IPNet_String_10_0_0_0)

text \<open>
  C6, amended. The family test is on the parsed address and comes before the alignment
  check, whatever that check is. A CIDR string whose address has no 4-byte form is
  refused by \<open>ValidateIPv4CIDRBlock\<close>; one whose address has a 4-byte form is refused by
  \<open>ValidateIPv6CIDRBlock\<close>. So the IPv4 variant passes only addresses with a 4-byte form
  and the IPv6 variant only addresses without one. An IPv4 address has a 4-byte form in
  its 4-byte and in its 16-byte representation, and the latter is also what an
  IPv4-mapped IPv6 text parses to.
\<close>

theorem CIDRBlock_family_by_4_byte_form:
  "(P cidr = (ip, n, None) \<and> To4 ip = None
      \<longrightarrow> ValidateIPv4CIDRBlock P SN E cidr =
          Some (Errorf ''%q is not a valid IPv4 CIDR block'' [AString cidr]))
   \<and> (P cidr = (ip, n, None) \<and> To4 ip = Some quad
      \<longrightarrow> ValidateIPv6CIDRBlock P SN E cidr =
          Some (Errorf ''%q is not a valid IPv6 CIDR block'' [AString cidr]))
   \<and> (ValidateIPv4CIDRBlock P SN E cidr = None
      \<longrightarrow> (\<exists>ip n quad. P cidr = (ip, n, None) \<and> To4 ip = Some quad))
   \<and> (ValidateIPv6CIDRBlock P SN E cidr = None
      \<longrightarrow> (\<exists>ip n. P cidr = (ip, n, None) \<and> To4 ip = None))
   \<and> To4 [a, b, c, d] = Some [a, b, c, d]
   \<and> To4 (v4InV6 [a, b, c, d]) = Some [a, b, c, d]"
proof (intro conjI impI)
  assume "P cidr = (ip, n, None) \<and> To4 ip = None"
  then show "ValidateIPv4CIDRBlock P SN E cidr =
      Some (Errorf ''%q is not a valid IPv4 CIDR block'' [AString cidr])"
    by (simp add: ValidateIPv4CIDRBlock_def)
next
  assume "P cidr = (ip, n, None) \<and> To4 ip = Some quad"
  then show "ValidateIPv6CIDRBlock P SN E cidr =
      Some (Errorf ''%q is not a valid IPv6 CIDR block'' [AString cidr])"
    by (simp add: ValidateIPv6CIDRBlock_def)
next
  assume "ValidateIPv4CIDRBlock P SN E cidr = None"
  then show "\<exists>ip n quad. P cidr = (ip, n, None) \<and> To4 ip = Some quad"
    by (cases "P cidr")
      (auto simp: ValidateIPv4CIDRBlock_def split: option.splits if_splits)
next
  assume "ValidateIPv6CIDRBlock P SN E cidr = None"
  then show "\<exists>ip n. P cidr = (ip, n, None) \<and> To4 ip = None"
    by (cases "P cidr")
      (auto simp: ValidateIPv6CIDRBlock_def split: option.splits if_splits)
next
  show "To4 [a, b, c, d] = Some [a, b, c, d]" by (simp add: To4_def)
next
  show "To4 (v4InV6 [a, b, c, d]) = Some [a, b, c, d]" by (rule To4_v4InV6)
qed

theorem CIDRBlock_family_by_4_byte_form_witness:
  "ValidateIPv4CIDRBlock example_ParseCIDR example_IPNet_String aligned ''2001:db8::/32'' =
     Some (Errorf ''%q is not a valid IPv4 CIDR block'' [AString ''2001:db8::/32''])
   \<and> ValidateIPv6CIDRBlock example_ParseCIDR example_IPNet_String aligned ''10.0.0.0/24'' =
     Some (Errorf ''%q is not a valid IPv6 CIDR block'' [AString ''10.0.0.0/24''])
   \<and> ValidateIPv6CIDRBlock example_ParseCIDR example_IPNet_String aligned
       ''::ffff:10.0.0.0/120'' =
     Some (Errorf ''%q is not a valid IPv6 CIDR block'' [AString ''::ffff:10.0.0.0/120''])
   \<and> (\<exists>ip n quad. example_ParseCIDR ''10.0.0.0/24'' = (ip, n, None) \<and> To4 ip = Some quad)
   \<and> (\<exists>ip n. example_ParseCIDR ''2001:db8::/32'' = (ip, n, None) \<and> To4 ip = None)"
proof -
  note t = CIDRBlock_family_by_4_byte_form
    [where P = example_ParseCIDR and SN = example_IPNet_String and E = aligned]
  have a: "ValidateIPv4CIDRBlock example_ParseCIDR example_IPNet_String aligned
      ''2001:db8::/32'' =
     Some (Errorf ''%q is not a valid IPv4 CIDR block'' [AString ''2001:db8::/32''])"
    using t [where cidr = "''2001:db8::/32''"
        and ip = "[0x20, 0x01, 0x0d, 0xb8] @ replicate 12 0"
        and n = "([0x20, 0x01, 0x0d, 0xb8] @ replicate 12 0, replicate 4 0xff @ replicate 12 0)",
        THEN conjunct1]
      example_ParseCIDR_2001_db8 To4_2001_db8
    by simp
  have b: "ValidateIPv6CIDRBlock example_ParseCIDR example_IPNet_String aligned
      ''10.0.0.0/24'' =
     Some (Errorf ''%q is not a valid IPv6 CIDR block'' [AString ''10.0.0.0/24''])"
    using t [where cidr = "''10.0.0.0/24''" and ip = "v4InV6 [10, 0, 0, 0]"
        and n = "([10, 0, 0, 0], [255, 255, 255, 0])" and quad = "[10, 0, 0, 0]",
        THEN conjunct2, THEN conjunct1]
      example_ParseCIDR_10_0_0_0 To4_v4InV6 [of 10 0 0 0]
    by simp
  have c: "ValidateIPv6CIDRBlock example_ParseCIDR example_IPNet_String aligned
      ''::ffff:10.0.0.0/120'' =
     Some (Errorf ''%q is not a valid IPv6 CIDR block'' [AString ''::ffff:10.0.0.0/120''])"
    using t [where cidr = "''::ffff:10.0.0.0/120''" and ip = "v4InV6 [10, 0, 0, 0]"
        and n = "(v4InV6 [10, 0, 0, 0], replicate 15 0xff @ [0])" and quad = "[10, 0, 0, 0]",
        THEN conjunct2, THEN conjunct1]
      example_ParseCIDR_mapped To4_v4InV6 [of 10 0 0 0]
    by simp
  have v4: "ValidateIPv4CIDRBlock example_ParseCIDR example_IPNet_String aligned
      ''10.0.0.0/24'' = None"
    by (simp add: ValidateIPv4CIDRBlock_def example_ParseCIDR_10_0_0_0 To4_v4InV6 aligned_def)
  have d: "\<exists>ip n quad. example_ParseCIDR ''10.0.0.0/24'' = (ip, n, None) \<and> To4 ip = Some quad"
    using t [where cidr = "''10.0.0.0/24''", THEN conjunct2, THEN conjunct2, THEN conjunct1]
      v4
    by blast
  have v6: "ValidateIPv6CIDRBlock example_ParseCIDR example_IPNet_String aligned
      ''2001:db8::/32'' = None"
    using To4_2001_db8
    by (simp add: ValidateIPv6CIDRBlock_def example_ParseCIDR_2001_db8 aligned_def
        example_IPNet_String_def)
  have e: "\<exists>ip n. example_ParseCIDR ''2001:db8::/32'' = (ip, n, None) \<and> To4 ip = None"
    using t [where cidr = "''2001:db8::/32''",
        THEN conjunct2, THEN conjunct2, THEN conjunct2, THEN conjunct1]
      v6
    by blast
  from a b c d e show ?thesis by (intro conjI)
qed

section \<open>Values of the wrong type\<close>

lemmas validator_defs =
  Valid4ByteASN_def ValidAccountID_def ValidIAMPolicyJSON_def ValidKMSKeyID_def
  ValidLaunchTemplateID_def ValidLaunchTemplateName_def ValidMulticastIPAddress_def
  ValidOnceADayWindowFormat_def ValidOnceAWeekWindowFormat_def ValidRegionName_def
  ValidUTCTimestamp_def ValidDuration_def ValidCIDRNetworkAddress_def
  ValidIPv4CIDRNetworkAddress_def ValidIPv6CIDRNetworkAddress_def

text \<open>
  C1, as stated, fails: \<open>Valid4ByteASN\<close> asserts \<^verbatim>\<open>v.(string)\<close> without the second
  result, and on a value that is not a string, here an int, the call panics instead of
  returning an error.
\<close>

theorem Valid4ByteASN_panics_on_int:
  "Valid4ByteASN example_ParseInt (VInt 65000) ''asn'' = Panic"
  by (simp add: Valid4ByteASN_def)

text \<open>
  C1, amended. Three validators test the type with the two-result assertion and return
  no warning and exactly one error that names the expected type: the validator built by
  \<open>ValidARNCheck\<close> and \<open>ValidTypeStringNullableFloat\<close> on a value that is not a string,
  the validator built by \<open>FloatGreaterThan\<close> on a value that is not a float64. The other
  fifteen validators assert \<^verbatim>\<open>v.(string)\<close> with one result and panic on every value that
  is not a string.
\<close>

theorem type_mismatch_error_or_panic:
  "(\<not> is_string v
      \<longrightarrow> ValidARNCheck P fs v k =
            Return ([], [Errorf ''expected type of %s to be string'' [AString k]])
        \<and> ValidTypeStringNullableFloat PF v k =
            Return ([], [Errorf ''expected type of %s to be string'' [AString k]]))
   \<and> (\<not> is_float64 v
      \<longrightarrow> FloatGreaterThan threshold v k =
            Return ([], [Errorf ''expected type of %s to be float'' [AString k]]))
   \<and> (\<not> is_string v
      \<longrightarrow> Valid4ByteASN PI v k = Panic
        \<and> ValidAccountID v k = Panic
        \<and> ValidIAMPolicyJSON NJ v k = Panic
        \<and> ValidKMSKeyID v k = Panic
        \<and> ValidLaunchTemplateID v k = Panic
        \<and> ValidLaunchTemplateName v k = Panic
        \<and> ValidMulticastIPAddress PIP v k = Panic
        \<and> ValidOnceADayWindowFormat v k = Panic
        \<and> ValidOnceAWeekWindowFormat TL v k = Panic
        \<and> ValidRegionName v k = Panic
        \<and> ValidUTCTimestamp TP v k = Panic
        \<and> ValidDuration PD v k = Panic
        \<and> ValidCIDRNetworkAddress PC SN E v k = Panic
        \<and> ValidIPv4CIDRNetworkAddress PC SN E v k = Panic
        \<and> ValidIPv6CIDRNetworkAddress PC SN E v k = Panic)"
  by (cases v)
    (simp_all add: validator_defs ValidARNCheck_def ValidTypeStringNullableFloat_def
      FloatGreaterThan_def)

theorem type_mismatch_error_or_panic_witness:
  "ValidARNCheck arn_Parse [panicking_check] (VInt 42) ''role_arn'' =
     Return ([], [Errorf ''expected type of %s to be string'' [AString ''role_arn'']])
   \<and> ValidTypeStringNullableFloat (\<lambda>s bitSize. None) (VInt 42) ''role_arn'' =
     Return ([], [Errorf ''expected type of %s to be string'' [AString ''role_arn'']])
   \<and> FloatGreaterThan 0 (VString ''1.5'') ''ratio'' =
     Return ([], [Errorf ''expected type of %s to be float'' [AString ''ratio'']])
   \<and> Valid4ByteASN example_ParseInt VNil ''asn'' = Panic
   \<and> ValidAccountID VNil ''asn'' = Panic
   \<and> ValidKMSKeyID VNil ''asn'' = Panic
   \<and> ValidRegionName VNil ''asn'' = Panic
   \<and> ValidDuration example_ParseDuration VNil ''asn'' = Panic
   \<and> ValidCIDRNetworkAddress example_ParseCIDR example_IPNet_String aligned VNil ''asn''
       = Panic"
proof -
  have a: "ValidARNCheck arn_Parse [panicking_check] (VInt 42) ''role_arn'' =
       Return ([], [Errorf ''expected type of %s to be string'' [AString ''role_arn'']])
     \<and> ValidTypeStringNullableFloat (\<lambda>s bitSize. None) (VInt 42) ''role_arn'' =
       Return ([], [Errorf ''expected type of %s to be string'' [AString ''role_arn'']])"
    using type_mismatch_error_or_panic
      [where v = "VInt 42" and k = "''role_arn''" and P = arn_Parse
         and fs = "[panicking_check]" and PF = "\<lambda>s bitSize. None", THEN conjunct1]
    by simp
  have b: "FloatGreaterThan 0 (VString ''1.5'') ''ratio'' =
     Return ([], [Errorf ''expected type of %s to be float'' [AString ''ratio'']])"
    using type_mismatch_error_or_panic
      [where v = "VString ''1.5''" and k = "''ratio''" and threshold = 0,
         THEN conjunct2, THEN conjunct1]
    by simp
  have c: "Valid4ByteASN example_ParseInt VNil ''asn'' = Panic
     \<and> ValidAccountID VNil ''asn'' = Panic
     \<and> ValidKMSKeyID VNil ''asn'' = Panic
     \<and> ValidRegionName VNil ''asn'' = Panic
     \<and> ValidDuration example_ParseDuration VNil ''asn'' = Panic
     \<and> ValidCIDRNetworkAddress example_ParseCIDR example_IPNet_String aligned VNil ''asn''
         = Panic"
    using type_mismatch_error_or_panic
      [where v = VNil and k = "''asn''" and PI = example_ParseInt
         and PD = example_ParseDuration and PC = example_ParseCIDR
         and SN = example_IPNet_String and E = aligned, THEN conjunct2, THEN conjunct2]
    by simp
  from a b c show ?thesis by simp
qed

section \<open>Warnings\<close>









end
